theory Spec2Isabelle
  imports Main "HOL-Library.AList" "HOL-Library.Char_ord" "HOL-Library.List_Lexorder"
begin

section \<open>Data model of the module registry (server/aleph.ts)\<close>

text \<open>
  A \<open>Uint8Array\<close> is a list of bytes; \<open>encoder.encode\<close> of a string is the list of its
  bytes, so strings and buffers share the type \<open>string\<close>.  JavaScript objects are
  mutable and shared by reference: a \<open>Module\<close> object lives at an address of the
  \<open>heap\<close>, and the registry \<open>#modules\<close> (an insertion-ordered \<open>Map\<close>) is an association
  list from specifiers to addresses.

  The code is asynchronous; the embedding runs every call to completion at the point
  where it is made (each \<open>await\<close>ed call, each task of a \<open>Promise.all\<close> in list order,
  and each call whose promise is dropped).
\<close>

type_synonym bytes = string

datatype SourceType = JS | JSX | TS | TSX | CSS | Unknown

datatype error = Error string

datatype ModuleSource =
  ModuleSource (src_code: string) (src_type: SourceType) (src_map: "string option")

record DependencyDescriptor =
  dspecifier :: string
  isDynamic :: bool
  hashLoc :: "int option"
  dvirtual :: bool

record Module =
  specifier :: string
  deps :: "DependencyDescriptor list"
  external :: bool
  sourceHash :: string
  jsFile :: string
  jsBuffer :: "bytes option"
  httpExternal :: bool
  isStyle :: bool
  denoHooks :: "string list option"
  ssrPropsFn :: "string option"
  ssgPathsFn :: "bool option"
  jsxStaticClassNames :: "string list option"
  ready :: bool
  csrCode :: "string option"
  source :: "ModuleSource option"

text \<open>
  A value of the metadata sidecar as \<open>JSON.parse\<close> returns it, seen through the three
  tests of \<open>#initModule\<close>: a field that is a string, or anything else (absent included).
\<close>

datatype jval = JString string | JOther

record Meta =
  m_specifier :: jval
  m_sourceHash :: jval
  m_deps :: "DependencyDescriptor list option"
  m_httpExternal :: "bool option"
  m_isStyle :: "bool option"
  m_denoHooks :: "string list option"
  m_ssrPropsFn :: "string option"
  m_ssgPathsFn :: "bool option"
  m_jsxStaticClassNames :: "string list option"
  m_csrCode :: "string option"
  m_source :: "ModuleSource option"

datatype sidecar = Unparsable | Parsed Meta

datatype ResolveResult =
  ResolveResult (r_specifier: "string option") (r_external: bool) (r_data: "string option")
    (r_asPage: bool)

datatype ResolveListener =
  ResolveListener (rl_pluginId: nat) (rl_test: "string \<Rightarrow> bool")
    (rl_resolve: "string \<Rightarrow> ResolveResult")

datatype LoadOutput =
  LoadOutput (lo_code: string) (lo_type: "string option") (lo_map: "string option")

datatype LoadListener =
  LoadListener (ll_pluginId: nat) (ll_test: "string \<Rightarrow> bool")
    (ll_load: "string \<Rightarrow> string option \<Rightarrow> error + LoadOutput")

datatype TransformOutput =
  TransformOutput (to_code: "string option") (to_map: "string option")
    (to_extraDeps: "DependencyDescriptor list option")

datatype TransformTest = RegExp "string \<Rightarrow> bool" | Hmr | MainHook

datatype TransformListener =
  TransformListener (tl_pluginId: nat) (tl_test: TransformTest)
    (tl_transform: "Module \<Rightarrow> string \<Rightarrow> string option \<Rightarrow> error + TransformOutput option")

datatype Plugin = Plugin (p_name: string) (p_checksum: "(error + string) option")

datatype CompiledDep = CompiledDep (cd_specifier: string) (cd_resolved: string) (cd_isDynamic: bool)

record TransformResult =
  t_code :: string
  t_deps :: "CompiledDep list option"
  t_denoHooks :: "string list option"
  t_ssrPropsFn :: "string option"
  t_ssgPathsFn :: "bool option"
  t_starExports :: "string list option"
  t_jsxStaticClassNames :: "string list option"
  t_map :: "string option"

text \<open>
  The collaborators and the configuration of one \<open>Aleph\<close> instance.  The digests of
  \<open>std/hash\<close>, the compiler (\<open>transform\<close>, \<open>fastTransform\<close>), the CSS loader, the file
  and network fetch and the helpers of \<open>server/helper.ts\<close>, \<open>shared/util.ts\<close> and
  \<open>framework/core/module.ts\<close> are parameters.
\<close>

record env =
  resolverListeners :: "ResolveListener list"
  loadListeners :: "LoadListener list"
  transformListeners :: "TransformListener list"
  plugins :: "Plugin list"
  importMap :: "(string \<times> string) list"
  cssConfig :: string
  isDev :: bool
  reload :: bool
  ssr :: bool
  sha1 :: "string \<Rightarrow> string"
  md5 :: "string \<Rightarrow> string"
  getSourceType :: "string \<Rightarrow> string option \<Rightarrow> SourceType"
  toLocalPath :: "string \<Rightarrow> string"
  trimBuiltinModuleExts :: "string \<Rightarrow> string"
  basename :: "string \<Rightarrow> string"
  isLikelyHttpURL :: "string \<Rightarrow> bool"
  isLocalhostUrl :: "string \<Rightarrow> bool"
  fetchModule :: "string \<Rightarrow> error + (bytes \<times> string option)"
  transform :: "string \<Rightarrow> string \<Rightarrow> SourceType \<Rightarrow> bool \<Rightarrow> error + TransformResult"
  fastTransform :: "string \<Rightarrow> ModuleSource \<Rightarrow> error + TransformResult"
  cssLoader :: "string \<Rightarrow> string \<Rightarrow> error + (string \<times> string option)"
  parseModuleExportNames :: "string \<Rightarrow> error + string list"
  isPageModule :: "string \<Rightarrow> bool"
  createRouteUpdate :: "string \<Rightarrow> string \<times> string \<times> bool option"

text \<open>
  The mutable state: the heap of \<open>Module\<close> objects, the registry, \<open>#appModule\<close>, the build
  directory (compiled files, sidecars, source maps and bundling files, each indexed by
  the module's \<open>jsFile\<close>), \<open>sessionStorage\<close>, the two routing tables as the list of
  their updates, and the observable calls: the specifiers handed to the compiler, the
  specifiers handed to the loader, the messages of \<open>log.error\<close> and \<open>log.warn\<close>, the
  objects handed to the cascade's callback and the specifiers that entered a cascade's
  tracing set.
\<close>

record state =
  heap :: "nat \<Rightarrow> Module"
  nextAddr :: nat
  modules :: "(string \<times> nat) list"
  appModule :: "nat option"
  jsFiles :: "string \<Rightarrow> bytes option"
  metaFiles :: "string \<Rightarrow> sidecar option"
  mapFiles :: "string \<Rightarrow> string option"
  bundlingFiles :: "string set"
  session :: "string set"
  pageRouting :: "(string \<times> string \<times> bool option) list"
  apiRouting :: "(string \<times> string \<times> bool option) list"
  transformLog :: "string list"
  loadLog :: "string list"
  errorLog :: "string list"
  warnLog :: "string list"
  patchedLog :: "nat list"
  cascadeLog :: "string list"

section \<open>Bytes (std/bytes and typed arrays)\<close>

text \<open>\<open>Uint8Array.prototype.slice(start, end)\<close>: negative indices count from the end.\<close>

definition slice :: "'a list \<Rightarrow> int \<Rightarrow> int \<Rightarrow> 'a list" where
  "slice b start fin =
     (let len = int (length b);
          k = (if start < 0 then max (len + start) 0 else min start len);
          final = (if fin < 0 then max (len + fin) 0 else min fin len)
      in take (nat (final - k)) (drop (nat k) b))"

text \<open>
  \<open>copy(src, dst, off)\<close> of std/bytes: the offset is clamped into the destination, the
  source is cut to the room that is left, and the destination keeps its length.
\<close>

definition copy :: "'a list \<Rightarrow> 'a list \<Rightarrow> int \<Rightarrow> 'a list" where
  "copy src dst off =
     (let k = nat (max 0 (min off (int (length dst))));
          s = take (length dst - k) src
      in take k dst @ s @ drop (k + length s) dst)"

text \<open>
  \<open>indexOf(source, pattern)\<close> of std/bytes: the first index at which the pattern
  starts, \<open>-1\<close> when there is none or the pattern is empty.
\<close>

fun indexOfFrom :: "'a list \<Rightarrow> 'a list \<Rightarrow> int \<Rightarrow> int" where
  "indexOfFrom [] pat i = -1"
| "indexOfFrom (x # xs) pat i =
     (if pat \<noteq> [] \<and> take (length pat) (x # xs) = pat then i else indexOfFrom xs pat (i + 1))"

definition indexOf :: "'a list \<Rightarrow> 'a list \<Rightarrow> int" where
  "indexOf src pat = indexOfFrom src pat 0"

section \<open>Registry lookup and the aggregate hash\<close>

definition getModule :: "state \<Rightarrow> string \<Rightarrow> nat option" where
  "getModule st sp = (if sp = ''app'' then appModule st else map_of (modules st) sp)"

fun callbacks :: "(DependencyDescriptor \<Rightarrow> 'a \<Rightarrow> 'a \<times> bool) \<Rightarrow> DependencyDescriptor list \<Rightarrow> 'a \<Rightarrow> 'a \<times> bool" where
  "callbacks cb [] acc = (acc, True)"
| "callbacks cb (d # ds) acc =
     (case cb d acc of (acc1, go) \<Rightarrow> if go then callbacks cb ds acc1 else (acc1, False))"

text \<open>
  \<open>lookupDeps\<close>: the callback threads an accumulator and answers whether to go on
  (\<open>False\<close> is the source's \<open>false\<close>).  The recursion depth is bounded by the fuel;
  \<open>None\<close> is running out of it.
\<close>

fun lookupDeps :: "nat \<Rightarrow> state \<Rightarrow> (DependencyDescriptor \<Rightarrow> 'a \<Rightarrow> 'a \<times> bool) \<Rightarrow> string \<Rightarrow> 'a \<times> string set \<Rightarrow> ('a \<times> string set \<times> bool) option"
  and lookupDepsEach :: "nat \<Rightarrow> state \<Rightarrow> (DependencyDescriptor \<Rightarrow> 'a \<Rightarrow> 'a \<times> bool) \<Rightarrow> string list \<Rightarrow> 'a \<times> string set \<Rightarrow> ('a \<times> string set \<times> bool) option"
  where
  "lookupDeps 0 st cb sp (acc, tracing) = None"
| "lookupDeps (Suc n) st cb sp (acc, tracing) =
     (case getModule st sp of
        None \<Rightarrow> Some (acc, tracing, True)
      | Some a \<Rightarrow>
          if sp \<in> tracing then Some (acc, tracing, True)
          else (case callbacks cb (deps (heap st a)) acc of
                  (acc1, go) \<Rightarrow>
                    if go then
                      lookupDepsEach n st cb (map dspecifier (deps (heap st a))) (acc1, insert sp tracing)
                    else Some (acc1, insert sp tracing, False)))"
| "lookupDepsEach n st cb [] (acc, tracing) = Some (acc, tracing, True)"
| "lookupDepsEach n st cb (s # ss) (acc, tracing) =
     (case lookupDeps n st cb s (acc, tracing) of
        None \<Rightarrow> None
      | Some r \<Rightarrow>
          if snd (snd r) then lookupDepsEach n st cb ss (fst r, fst (snd r))
          else Some (fst r, fst (snd r), False))"

definition hashDep :: "state \<Rightarrow> DependencyDescriptor \<Rightarrow> string list \<Rightarrow> string list \<times> bool" where
  "hashDep st dep acc =
     (case getModule st (dspecifier dep) of
        Some d \<Rightarrow> (acc @ [sourceHash (heap st d)], True)
      | None \<Rightarrow> (acc, True))"

text \<open>
  \<open>computeModuleHash\<close>: an md5 hasher fed the module's \<open>sourceHash\<close> and then the
  \<open>sourceHash\<close> of every registered dependency \<open>lookupDeps\<close> visits.  The fuel is one
  more than the number of specifiers \<open>getModule\<close> can answer, which is enough
  (\<open>lookupDeps_enough_fuel\<close> below).
\<close>

definition computeModuleHash :: "env \<Rightarrow> state \<Rightarrow> nat \<Rightarrow> string" where
  "computeModuleHash e st a =
     (case lookupDeps (Suc (Suc (length (modules st)))) st (hashDep st) (specifier (heap st a))
             ([sourceHash (heap st a)], {}) of
        Some r \<Rightarrow> md5 e (concat (fst r))
      | None \<Rightarrow> md5 e [])"

section \<open>The artifact cache\<close>

text \<open>
  \<open>getModuleJS(module)\<close> as \<open>#replaceDepHash\<close> calls it (\<open>injectHMRCode = false\<close>):
  the buffer held in memory, or the compiled file read from the build directory and
  kept in the module, or \<open>null\<close>.
\<close>

definition getModuleJS :: "state \<Rightarrow> nat \<Rightarrow> state \<times> bytes option" where
  "getModuleJS st a =
     (case jsBuffer (heap st a) of
        Some b \<Rightarrow> (st, Some b)
      | None \<Rightarrow>
          (case jsFiles st (jsFile (heap st a)) of
             Some b \<Rightarrow> (st\<lparr>heap := (heap st)(a := (heap st a)\<lparr>jsBuffer := Some b\<rparr>)\<rparr>, Some b)
           | None \<Rightarrow> (st, None)))"

text \<open>The sidecar \<open>#cacheModule\<close> writes: every field but \<open>jsBuffer\<close>, \<open>jsFile\<close> and \<open>ready\<close>.\<close>

definition metaOf :: "Module \<Rightarrow> Meta" where
  "metaOf m =
     \<lparr>m_specifier = JString (specifier m), m_sourceHash = JString (sourceHash m),
      m_deps = Some (deps m),
      m_httpExternal = (if httpExternal m then Some True else None),
      m_isStyle = (if isStyle m then Some True else None),
      m_denoHooks = denoHooks m, m_ssrPropsFn = ssrPropsFn m, m_ssgPathsFn = ssgPathsFn m,
      m_jsxStaticClassNames = jsxStaticClassNames m, m_csrCode = csrCode m,
      m_source = source m\<rparr>"

definition filled :: "string option \<Rightarrow> bool" where
  "filled s = (case s of None \<Rightarrow> False | Some v \<Rightarrow> v \<noteq> [])"

definition cacheModule :: "state \<Rightarrow> nat \<Rightarrow> string option \<Rightarrow> state" where
  "cacheModule st a sourceMap =
     (case jsBuffer (heap st a) of
        None \<Rightarrow> st
      | Some b \<Rightarrow>
          st\<lparr>jsFiles := (jsFiles st)(jsFile (heap st a) \<mapsto> b),
             metaFiles := (metaFiles st)(jsFile (heap st a) \<mapsto> Parsed (metaOf (heap st a))),
             mapFiles := (if filled sourceMap then (mapFiles st)(jsFile (heap st a) := sourceMap)
                          else mapFiles st),
             bundlingFiles := bundlingFiles st - {jsFile (heap st a)}\<rparr>)"

section \<open>The cascade propagator\<close>

text \<open>
  \<open>#replaceDepHash(module, hashLoc, hash)\<close>: the first six characters of the hash are
  written at \<open>hashLoc\<close> when the bytes there differ, and \<open>csrCode\<close> is deleted.
\<close>

definition writeHash :: "nat \<Rightarrow> int \<Rightarrow> string \<Rightarrow> state \<times> bytes option \<Rightarrow> state \<times> bool" where
  "writeHash a loc hash r =
     (case snd r of
        None \<Rightarrow> (fst r, False)
      | Some b \<Rightarrow>
          if take 6 hash \<noteq> slice b loc (loc + 6) then
            ((fst r)\<lparr>heap := (heap (fst r))(a := (heap (fst r) a)\<lparr>jsBuffer := Some (copy (take 6 hash) b loc),
                                                               csrCode := None\<rparr>)\<rparr>, True)
          else (fst r, False))"

definition replaceDepHash :: "state \<Rightarrow> nat \<Rightarrow> int \<Rightarrow> string \<Rightarrow> state \<times> bool" where
  "replaceDepHash st a loc hash = writeHash a loc hash (getModuleJS st a)"

text \<open>
  The inner loop of \<open>#applyCompilationSideEffect\<close> over the dependencies of one
  registered module \<open>a\<close>: the hash of the changed module \<open>by\<close> is computed at its first
  use and kept.
\<close>

definition hashOnce :: "env \<Rightarrow> state \<Rightarrow> nat \<Rightarrow> string option \<Rightarrow> string" where
  "hashOnce e st by hash = (case hash of None \<Rightarrow> computeModuleHash e st by | Some h \<Rightarrow> h)"

fun patchDeps :: "env \<Rightarrow> nat \<Rightarrow> nat \<Rightarrow> DependencyDescriptor list \<Rightarrow> string option \<Rightarrow> bool \<Rightarrow> state \<Rightarrow> state \<times> string option \<times> bool" where
  "patchDeps e by a [] hash fsync st = (st, hash, fsync)"
| "patchDeps e by a (d # ds) hash fsync st =
     (if dspecifier d = specifier (heap st by) then
        (case hashLoc d of
           None \<Rightarrow> patchDeps e by a ds hash fsync st
         | Some loc \<Rightarrow>
             (case replaceDepHash st a loc (hashOnce e st by hash) of
                (st1, changed) \<Rightarrow>
                  patchDeps e by a ds (Some (hashOnce e st by hash)) (fsync \<or> changed) st1))
      else patchDeps e by a ds hash fsync st)"

text \<open>
  \<open>#applyCompilationSideEffect(by, callback, __tracing)\<close>.  The callback is the
  caller's; the model records the object it is handed.  The recursive call of the
  source passes no tracing set, so the callee starts from the default, a new empty
  set.  The fuel bounds the depth of the recursion; \<open>None\<close> is running out of it.
\<close>

fun applyCompilationSideEffect :: "nat \<Rightarrow> env \<Rightarrow> nat \<Rightarrow> string set \<Rightarrow> state \<Rightarrow> state option"
  and scanModules :: "nat \<Rightarrow> env \<Rightarrow> nat \<Rightarrow> nat list \<Rightarrow> string option \<Rightarrow> state \<Rightarrow> state option"
  where
  "applyCompilationSideEffect 0 e by tracing st = None"
| "applyCompilationSideEffect (Suc n) e by tracing st =
     (if specifier (heap st by) \<in> tracing then Some st
      else scanModules n e by (map snd (modules st)) None
             (st\<lparr>cascadeLog := cascadeLog st @ [specifier (heap st by)]\<rparr>))"
| "scanModules n e by [] hash st = Some st"
| "scanModules n e by (a # as) hash st =
     (if deps (heap st a) \<noteq> [] then
        (case patchDeps e by a (deps (heap st a)) hash False st of
           (st1, hash1, fsync) \<Rightarrow>
             if fsync then
               (case applyCompilationSideEffect n e a {} (st1\<lparr>patchedLog := patchedLog st1 @ [a]\<rparr>) of
                  None \<Rightarrow> None
                | Some st2 \<Rightarrow> scanModules n e by as hash1 (cacheModule st2 a None))
             else scanModules n e by as hash1 st1)
      else scanModules n e by as hash st)"

section \<open>Resolving and loading a module source\<close>

record CompileOptions =
  o_source :: "ModuleSource option"
  o_forceRefresh :: bool
  o_ignoreDeps :: bool
  o_httpExternal :: bool
  o_virtual :: bool

text \<open>JavaScript truthiness of an optional string: \<open>undefined\<close> and \<open>''\<close> are falsy.\<close>

definition truthy :: "string option \<Rightarrow> string option" where
  "truthy s = (case s of None \<Rightarrow> None | Some v \<Rightarrow> if v = [] then None else Some v)"

text \<open>
  The resolver loop of \<open>#initModule\<close>: the first listener whose pattern matches decides
  the specifier, the \<open>external\<close> flag and the data; no later listener is asked.
\<close>

definition runResolvers :: "ResolveListener list \<Rightarrow> string \<Rightarrow> string \<times> bool \<times> string option" where
  "runResolvers ls sp =
     (case find (\<lambda>l. rl_test l sp) ls of
        None \<Rightarrow> (sp, False, None)
      | Some l \<Rightarrow>
          (case truthy (r_specifier (rl_resolve l sp)) of
             None \<Rightarrow> (sp, r_external (rl_resolve l sp), r_data (rl_resolve l sp))
           | Some s \<Rightarrow> (s, r_external (rl_resolve l sp), r_data (rl_resolve l sp))))"

definition loaderType :: "string option \<Rightarrow> SourceType" where
  "loaderType ty =
     (case ty of
        None \<Rightarrow> JS
      | Some s \<Rightarrow>
          if s = ''js'' then JS else if s = ''jsx'' then JSX else if s = ''ts'' then TS
          else if s = ''tsx'' then TSX else if s = ''css'' then CSS else Unknown)"

definition resolveModuleSource :: "env \<Rightarrow> string \<Rightarrow> string option \<Rightarrow> error + ModuleSource" where
  "resolveModuleSource e sp data =
     (case find (\<lambda>l. ll_test l sp) (loadListeners e) of
        Some loader \<Rightarrow>
          (case ll_load loader sp data of
             Inl err \<Rightarrow> Inl err
           | Inr out \<Rightarrow> Inr (ModuleSource (lo_code out) (loaderType (lo_type out)) (truthy (lo_map out))))
      | None \<Rightarrow>
          (case fetchModule e sp of
             Inl err \<Rightarrow> Inl err
           | Inr fetched \<Rightarrow>
               Inr (ModuleSource
                      (if getSourceType e sp (truthy (snd fetched)) \<noteq> Unknown then fst fetched else [])
                      (getSourceType e sp (truthy (snd fetched))) None)))"

section \<open>The content hasher\<close>

text \<open>A JavaScript \<open>Set\<close> of numbers: insertion order, no repetition.\<close>

definition setAdd :: "nat list \<Rightarrow> nat \<Rightarrow> nat list" where
  "setAdd s x = (if x \<in> set s then s else s @ [x])"

text \<open>
  The plugins whose checksum enters the hash: the plugin of the first loader that
  matches the specifier, then the plugins of the transform listeners whose regular
  expression matches, in the order of the listener list.
\<close>

definition isRegExpMatch :: "TransformListener \<Rightarrow> string \<Rightarrow> bool" where
  "isRegExpMatch l sp = (case tl_test l of RegExp r \<Rightarrow> r sp | Hmr \<Rightarrow> False | MainHook \<Rightarrow> False)"

definition matchedPlugins :: "env \<Rightarrow> string \<Rightarrow> nat list" where
  "matchedPlugins e sp =
     foldl setAdd
       (case find (\<lambda>l. ll_test l sp) (loadListeners e) of None \<Rightarrow> [] | Some l \<Rightarrow> [ll_pluginId l])
       (map tl_pluginId (filter (\<lambda>l. isRegExpMatch l sp) (transformListeners e)))"

text \<open>
  \<open>plugins.forEach\<close>: a plugin with a \<open>checksum\<close> function feeds its name and its
  checksum to the hasher.  An index outside \<open>config.plugins\<close> reads \<open>undefined.checksum\<close>,
  a \<open>TypeError\<close>; a checksum function may throw.
\<close>

fun pluginChunks :: "Plugin list \<Rightarrow> nat list \<Rightarrow> error + string list" where
  "pluginChunks ps [] = Inr []"
| "pluginChunks ps (i # ids) =
     (if i < length ps then
        (case p_checksum (ps ! i) of
           None \<Rightarrow> pluginChunks ps ids
         | Some c \<Rightarrow>
             (case c of
                Inl err \<Rightarrow> Inl err
              | Inr cs \<Rightarrow>
                  (case pluginChunks ps ids of
                     Inl err \<Rightarrow> Inl err
                   | Inr rest \<Rightarrow> Inr (p_name (ps ! i) # cs # rest))))
      else Inl (Error ''TypeError''))"

text \<open>
  \<open>Object.keys(imports).sort().map(key => key + ':' + imports[key]).join('\n')\<close>.
  The import map is the list of its entries in insertion order.
\<close>

fun joinWith :: "string \<Rightarrow> string list \<Rightarrow> string" where
  "joinWith sep [] = []"
| "joinWith sep [x] = x"
| "joinWith sep (x # y # ys) = x @ sep @ joinWith sep (y # ys)"

definition importMapChunk :: "(string \<times> string) list \<Rightarrow> string" where
  "importMapChunk im =
     joinWith [CHR 0x0A]
       (map (\<lambda>key. key @ '':'' @ (case map_of im key of None \<Rightarrow> ''undefined'' | Some v \<Rightarrow> v))
          (sort (map fst im)))"

text \<open>The chunks fed to the sha1 hasher of \<open>#initModule\<close>, in order.\<close>

definition sourceHashInput :: "env \<Rightarrow> string \<Rightarrow> ModuleSource \<Rightarrow> error + string list" where
  "sourceHashInput e sp src =
     (case pluginChunks (plugins e) (matchedPlugins e sp) of
        Inl err \<Rightarrow> Inl err
      | Inr chunks \<Rightarrow>
          Inr ([src_code src, importMapChunk (importMap e)] @ chunks @
               (if src_type src = CSS then [cssConfig e] else [])))"

definition computeSourceHash :: "env \<Rightarrow> string \<Rightarrow> ModuleSource \<Rightarrow> error + string" where
  "computeSourceHash e sp src =
     (case sourceHashInput e sp src of
        Inl err \<Rightarrow> Inl err
      | Inr chunks \<Rightarrow> Inr (sha1 e (concat chunks)))"

section \<open>The initialize-module protocol\<close>

definition newModule :: "string \<Rightarrow> string \<Rightarrow> bool \<Rightarrow> Module" where
  "newModule sp jf hx =
     \<lparr>specifier = sp, deps = [], external = False, sourceHash = [], jsFile = jf,
      jsBuffer = None, httpExternal = hx, isStyle = False, denoHooks = None, ssrPropsFn = None,
      ssgPathsFn = None, jsxStaticClassNames = None, ready = False, csrCode = None,
      source = None\<rparr>"

definition externalModule :: "string \<Rightarrow> Module" where
  "externalModule sp = (newModule sp [] False)\<lparr>external := True, ready := True\<rparr>"

text \<open>
  \<open>defer(err)\<close>: with an error, a newly created module leaves the registry and the
  message is logged; in every case the \<open>ready\<close> promise is resolved.
\<close>

definition deferReady :: "string \<Rightarrow> bool \<Rightarrow> nat \<Rightarrow> error option \<Rightarrow> state \<Rightarrow> state" where
  "deferReady sp isNew a err st =
     (case err of
        None \<Rightarrow> st\<lparr>heap := (heap st)(a := (heap st a)\<lparr>ready := True\<rparr>)\<rparr>
      | Some er \<Rightarrow>
          (case er of Error msg \<Rightarrow>
             st\<lparr>heap := (heap st)(a := (heap st a)\<lparr>ready := True\<rparr>),
                modules := (if isNew then AList.delete sp (modules st) else modules st),
                errorLog := errorLog st @ [msg]\<rparr>))"

text \<open>\<open>Object.assign(mod, meta)\<close>: every field the sidecar holds overwrites the module's.\<close>

definition assignMeta :: "Module \<Rightarrow> Meta \<Rightarrow> Module" where
  "assignMeta m meta =
     m\<lparr>specifier := (case m_specifier meta of JString s \<Rightarrow> s | JOther \<Rightarrow> specifier m),
       sourceHash := (case m_sourceHash meta of JString s \<Rightarrow> s | JOther \<Rightarrow> sourceHash m),
       deps := (case m_deps meta of Some ds \<Rightarrow> ds | None \<Rightarrow> deps m),
       httpExternal := (case m_httpExternal meta of Some b \<Rightarrow> b | None \<Rightarrow> httpExternal m),
       isStyle := (case m_isStyle meta of Some b \<Rightarrow> b | None \<Rightarrow> isStyle m),
       denoHooks := (case m_denoHooks meta of Some v \<Rightarrow> Some v | None \<Rightarrow> denoHooks m),
       ssrPropsFn := (case m_ssrPropsFn meta of Some v \<Rightarrow> Some v | None \<Rightarrow> ssrPropsFn m),
       ssgPathsFn := (case m_ssgPathsFn meta of Some v \<Rightarrow> Some v | None \<Rightarrow> ssgPathsFn m),
       jsxStaticClassNames :=
         (case m_jsxStaticClassNames meta of Some v \<Rightarrow> Some v | None \<Rightarrow> jsxStaticClassNames m),
       csrCode := (case m_csrCode meta of Some v \<Rightarrow> Some v | None \<Rightarrow> csrCode m),
       source := (case m_source meta of Some v \<Rightarrow> Some v | None \<Rightarrow> source m)\<rparr>"

definition isFilledString :: "jval \<Rightarrow> bool" where
  "isFilledString v = (case v of JString s \<Rightarrow> s \<noteq> [] | JOther \<Rightarrow> False)"

text \<open>
  The test of \<open>#initModule\<close> on a parsed sidecar: \<open>meta.specifier === specifier\<close>,
  \<open>util.isFilledString(meta.sourceHash)\<close> and \<open>util.isArray(meta.deps)\<close>.
\<close>

definition metaConsistent :: "string \<Rightarrow> Meta \<Rightarrow> bool" where
  "metaConsistent sp meta =
     (m_specifier meta = JString sp \<and> isFilledString (m_sourceHash meta) \<and> m_deps meta \<noteq> None)"

text \<open>
  The sidecar step.  A sidecar that does not parse throws inside the \<open>try\<close>, whose
  \<open>catch\<close> is empty; one that parses and fails the test is removed and a warning is
  logged; one that passes is merged into the module.
\<close>

definition restoreMeta :: "env \<Rightarrow> string \<Rightarrow> nat \<Rightarrow> state \<Rightarrow> state" where
  "restoreMeta e sp a st =
     (case metaFiles st (jsFile (heap st a)) of
        None \<Rightarrow> st
      | Some sc \<Rightarrow>
          (case sc of
             Unparsable \<Rightarrow> st
           | Parsed meta \<Rightarrow>
               if metaConsistent sp meta then
                 st\<lparr>heap := (heap st)(a := assignMeta (heap st a) meta)\<rparr>
               else
                 st\<lparr>warnLog := warnLog st @ [''removing invalid metadata of '' @ basename e sp],
                    metaFiles := (metaFiles st)(jsFile (heap st a) := None)\<rparr>))"

definition isRemote :: "env \<Rightarrow> string \<Rightarrow> bool" where
  "isRemote e sp = (isLikelyHttpURL e sp \<and> \<not> isLocalhostUrl e sp)"

definition isReload :: "env \<Rightarrow> string \<Rightarrow> state \<Rightarrow> bool" where
  "isReload e sp st = (reload e \<and> (''init:'' @ sp) \<notin> session st)"

definition needLoad :: "env \<Rightarrow> string \<Rightarrow> nat \<Rightarrow> state \<Rightarrow> bool" where
  "needLoad e sp a st =
     (\<not> isRemote e sp \<or> sourceHash (heap st a) = [] \<or> isReload e sp st \<or>
      jsFiles st (jsFile (heap st a)) = None)"

text \<open>
  The source of the load step: the caller's \<open>source\<close> option when there is one,
  otherwise \<open>resolveModuleSource\<close> (recorded in the load log).
\<close>

definition obtainSource :: "env \<Rightarrow> string \<Rightarrow> string option \<Rightarrow> CompileOptions \<Rightarrow> state \<Rightarrow> state \<times> (error + ModuleSource)" where
  "obtainSource e sp data opts st =
     (case o_source opts of
        Some s \<Rightarrow> (st, Inr s)
      | None \<Rightarrow> (st\<lparr>loadLog := loadLog st @ [sp]\<rparr>, resolveModuleSource e sp data))"

text \<open>
  The \<open>try\<close> block of the load step: load, hash, and compare with the stored hash.  An
  error of the loader or of the hash computation goes to \<open>defer(err)\<close> and the result
  has no source.
\<close>

definition compareHash :: "env \<Rightarrow> string \<Rightarrow> bool \<Rightarrow> nat \<Rightarrow> state \<Rightarrow> error + ModuleSource \<Rightarrow> state \<times> nat \<times> ModuleSource option" where
  "compareHash e sp isNew a st r =
     (case r of
        Inl err \<Rightarrow> (deferReady sp isNew a (Some err) st, a, None)
      | Inr src \<Rightarrow>
          (case computeSourceHash e sp src of
             Inl err \<Rightarrow> (deferReady sp isNew a (Some err) st, a, None)
           | Inr h \<Rightarrow>
               if sourceHash (heap st a) \<noteq> h then
                 (deferReady sp isNew a None
                    (st\<lparr>heap := (heap st)(a := (heap st a)\<lparr>sourceHash := h\<rparr>)\<rparr>), a, Some src)
               else (deferReady sp isNew a None st, a, None)))"

definition loadStep :: "env \<Rightarrow> string \<Rightarrow> string option \<Rightarrow> CompileOptions \<Rightarrow> bool \<Rightarrow> nat \<Rightarrow> state \<Rightarrow> state \<times> nat \<times> ModuleSource option" where
  "loadStep e sp data opts isNew a st =
     compareHash e sp isNew a (fst (obtainSource e sp data opts st))
       (snd (obtainSource e sp data opts st))"

text \<open>
  The part of \<open>#initModule\<close> after the registry lookup: a new module object is
  created and published under the specifier, the sidecar is read unless a refresh is
  forced, a virtual module is ready at once, and otherwise the source is loaded when
  a load is required.
\<close>

definition publish :: "env \<Rightarrow> string \<Rightarrow> CompileOptions \<Rightarrow> state \<Rightarrow> state" where
  "publish e sp opts st =
     st\<lparr>heap := (heap st)(nextAddr st :=
                    newModule sp (trimBuiltinModuleExts e (toLocalPath e sp) @ ''.js'')
                      (o_httpExternal opts)),
        nextAddr := Suc (nextAddr st),
        modules := AList.update sp (nextAddr st) (modules st),
        appModule := (if trimBuiltinModuleExts e sp = ''/app'' then Some (nextAddr st)
                      else appModule st)\<rparr>"

definition afterPublish :: "env \<Rightarrow> string \<Rightarrow> string option \<Rightarrow> CompileOptions \<Rightarrow> bool \<Rightarrow> nat \<Rightarrow> state \<Rightarrow> state \<times> nat \<times> ModuleSource option" where
  "afterPublish e sp data opts isNew a st =
     (if o_virtual opts then (deferReady sp isNew a None st, a, None)
      else if needLoad e sp a st then
        loadStep e sp data opts isNew a
          (if isReload e sp st then st\<lparr>session := insert (''init:'' @ sp) (session st)\<rparr> else st)
      else (deferReady sp isNew a None st, a, None))"

definition initFresh :: "env \<Rightarrow> string \<Rightarrow> string option \<Rightarrow> CompileOptions \<Rightarrow> bool \<Rightarrow> state \<Rightarrow> state \<times> nat \<times> ModuleSource option" where
  "initFresh e sp data opts isNew st =
     afterPublish e sp data opts isNew (nextAddr st)
       (if o_forceRefresh opts then publish e sp opts st
        else restoreMeta e sp (nextAddr st) (publish e sp opts st))"

text \<open>
  \<open>#initModule(specifier, options)\<close>: the module object and the source to transpile,
  \<open>None\<close> for the source when there is nothing to transpile.  A registered module is
  returned as it is unless a refresh is forced or it is \<open>httpExternal\<close> and the caller
  is not.
\<close>

definition reusable :: "CompileOptions \<Rightarrow> Module \<Rightarrow> bool" where
  "reusable opts m = (\<not> o_forceRefresh opts \<and> \<not> (\<not> o_httpExternal opts \<and> httpExternal m))"

definition initResolved :: "env \<Rightarrow> CompileOptions \<Rightarrow> state \<Rightarrow> string \<times> bool \<times> string option \<Rightarrow> state \<times> nat \<times> ModuleSource option" where
  "initResolved e opts st r =
     (case r of (sp, ext, data) \<Rightarrow>
        if ext then
          (st\<lparr>heap := (heap st)(nextAddr st := externalModule sp), nextAddr := Suc (nextAddr st)\<rparr>,
           nextAddr st, None)
        else
          (case map_of (modules st) sp of
             None \<Rightarrow> initFresh e sp data opts True st
           | Some a \<Rightarrow>
               if reusable opts (heap st a) then (st, a, None)
               else initFresh e sp data opts False st))"

definition resolveSpecifier :: "env \<Rightarrow> string \<Rightarrow> CompileOptions \<Rightarrow> string \<times> bool \<times> string option" where
  "resolveSpecifier e sp opts =
     (if o_source opts = None then runResolvers (resolverListeners e) sp else (sp, False, None))"

definition initModule :: "env \<Rightarrow> string \<Rightarrow> CompileOptions \<Rightarrow> state \<Rightarrow> state \<times> nat \<times> ModuleSource option" where
  "initModule e sp opts st = initResolved e opts st (resolveSpecifier e sp opts)"

section \<open>The transpile orchestrator\<close>

definition startsWith :: "string \<Rightarrow> string \<Rightarrow> bool" where
  "startsWith s p = (take (length p) s = p)"

definition trimPrefix :: "string \<Rightarrow> string \<Rightarrow> string" where
  "trimPrefix s p = (if startsWith s p then drop (length p) s else s)"

text \<open>\<open>String.prototype.replace\<close> with a string pattern: the first occurrence only.\<close>

fun replaceFirst :: "string \<Rightarrow> string \<Rightarrow> string \<Rightarrow> string" where
  "replaceFirst pat rep [] = (if pat = [] then rep else [])"
| "replaceFirst pat rep (c # cs) =
     (if take (length pat) (c # cs) = pat then rep @ drop (length pat) (c # cs)
      else c # replaceFirst pat rep cs)"

text \<open>
  Production mode: each star export is replaced by the names the exporting module
  declares.  \<open>parseModuleExportNames\<close> may throw.
\<close>

fun replaceStarExports :: "env \<Rightarrow> string list \<Rightarrow> string \<Rightarrow> error + string" where
  "replaceStarExports e [] jsCode = Inr jsCode"
| "replaceStarExports e (x # xs) jsCode =
     (case parseModuleExportNames e x of
        Inl err \<Rightarrow> Inl err
      | Inr names \<Rightarrow>
          replaceStarExports e xs
            (replaceFirst (''export * from \"['' @ x @ '']:'')
               (''export {'' @ joinWith '','' (filter (\<lambda>n. n \<noteq> ''default'') names) @ ''} from \"'')
               jsCode))"

text \<open>
  The transform listeners whose regular expression matches, in order: each sees the
  module and the code so far, and may replace the code, the source map, and add
  dependencies.
\<close>

fun runTransformListeners :: "TransformListener list \<Rightarrow> string \<Rightarrow> Module \<Rightarrow> string \<times> string option \<times> DependencyDescriptor list \<Rightarrow> error + string \<times> string option \<times> DependencyDescriptor list" where
  "runTransformListeners [] sp m acc = Inr acc"
| "runTransformListeners (l # ls) sp m acc =
     (if isRegExpMatch l sp then
        (case tl_transform l m (fst acc) (fst (snd acc)) of
           Inl err \<Rightarrow> Inl err
         | Inr ret \<Rightarrow>
             (case ret of
                None \<Rightarrow> runTransformListeners ls sp m acc
              | Some out \<Rightarrow>
                  runTransformListeners ls sp m
                    (case truthy (to_code out) of None \<Rightarrow> fst acc | Some c \<Rightarrow> c,
                     case truthy (to_map out) of None \<Rightarrow> fst (snd acc) | Some c \<Rightarrow> Some c,
                     case to_extraDeps out of None \<Rightarrow> snd (snd acc) | Some ds \<Rightarrow> snd (snd acc) @ ds)))
      else runTransformListeners ls sp m acc)"

text \<open>
  The dependency descriptor of a compiled dependency: for a specifier that starts with
  \<open>/\<close>, the hash location is where the resolved import ends in the buffer, less six,
  when the resolved import is found at a positive index.
\<close>

definition toDescriptor :: "bytes \<Rightarrow> CompiledDep \<Rightarrow> DependencyDescriptor" where
  "toDescriptor buf d =
     \<lparr>dspecifier = cd_specifier d, isDynamic = cd_isDynamic d,
      hashLoc = (if startsWith (cd_specifier d) ''/'' \<and> indexOf buf (cd_resolved d) > 0
                 then Some (indexOf buf (cd_resolved d) + int (length (cd_resolved d)) - 6)
                 else None),
      dvirtual = False\<rparr>"

definition rawDescriptor :: "CompiledDep \<Rightarrow> DependencyDescriptor" where
  "rawDescriptor d =
     \<lparr>dspecifier = cd_specifier d, isDynamic = cd_isDynamic d, hashLoc = None, dvirtual = False\<rparr>"

definition compiledDeps :: "TransformResult \<Rightarrow> CompiledDep list" where
  "compiledDeps ret = (case t_deps ret of None \<Rightarrow> [] | Some ds \<Rightarrow> ds)"

text \<open>The compiler call: \<open>fastTransform\<close> for a remote module that is not JSX.\<close>

definition callTransform :: "env \<Rightarrow> string \<Rightarrow> ModuleSource \<Rightarrow> bool \<Rightarrow> error + TransformResult" where
  "callTransform e sp src hx =
     (if isLikelyHttpURL e sp \<and> src_type src \<noteq> JSX \<and> src_type src \<noteq> TSX then fastTransform e sp src
      else transform e sp (src_code src) (src_type src) hx)"

text \<open>The CSS step: the loader's output replaces the source, which becomes JavaScript.\<close>

definition cssStep :: "env \<Rightarrow> string \<Rightarrow> ModuleSource \<Rightarrow> error + ModuleSource" where
  "cssStep e sp src =
     (if src_type src = CSS then
        (case cssLoader e sp (src_code src) of
           Inl err \<Rightarrow> Inl err
         | Inr out \<Rightarrow> Inr (ModuleSource (fst out) JS (snd out)))
      else Inr src)"

text \<open>
  After the compiler has answered: the metadata of the answer is assigned to the
  module, the listeners run, the source-map comment is appended, the buffer and the
  dependency list are set, and the module is written to the cache.
\<close>

definition afterCompiler :: "env \<Rightarrow> nat \<Rightarrow> TransformResult \<Rightarrow> string \<Rightarrow> state \<Rightarrow> state \<times> (error + bool)" where
  "afterCompiler e a ret jsCode st =
     (case runTransformListeners (transformListeners e) (specifier (heap st a))
             ((heap st a)\<lparr>deps := map rawDescriptor (compiledDeps ret),
                           ssrPropsFn := t_ssrPropsFn ret, ssgPathsFn := t_ssgPathsFn ret,
                           jsxStaticClassNames := t_jsxStaticClassNames ret,
                           denoHooks := (case t_denoHooks ret of
                                           None \<Rightarrow> denoHooks (heap st a)
                                         | Some hs \<Rightarrow> if hs = [] then denoHooks (heap st a)
                                                     else Some (map (\<lambda>h. trimPrefix h ''useDeno-'') hs))\<rparr>)
             (jsCode, t_map ret, []) of
        Inl err \<Rightarrow>
          (st\<lparr>heap := (heap st)(a := (heap st a)\<lparr>deps := map rawDescriptor (compiledDeps ret),
                           ssrPropsFn := t_ssrPropsFn ret, ssgPathsFn := t_ssgPathsFn ret,
                           jsxStaticClassNames := t_jsxStaticClassNames ret,
                           denoHooks := (case t_denoHooks ret of
                                           None \<Rightarrow> denoHooks (heap st a)
                                         | Some hs \<Rightarrow> if hs = [] then denoHooks (heap st a)
                                                     else Some (map (\<lambda>h. trimPrefix h ''useDeno-'') hs))\<rparr>),
              errorLog := (if t_denoHooks ret \<noteq> None \<and> t_denoHooks ret \<noteq> Some [] \<and> \<not> ssr e
                           then errorLog st @ [''useDeno hook in SPA mode is illegal: '' @ specifier (heap st a)]
                           else errorLog st)\<rparr>, Inl err)
      | Inr out \<Rightarrow>
          (cacheModule
             (st\<lparr>heap := (heap st)(a := (heap st a)\<lparr>
                   deps := map (toDescriptor
                                  (if filled (fst (snd out))
                                   then fst out @ [CHR 0x0A] @ ''//# sourceMappingURL='' @
                                        basename e (jsFile (heap st a)) @ ''.map''
                                   else fst out))
                             (filter (\<lambda>d. cd_specifier d \<noteq> specifier (heap st a)) (compiledDeps ret))
                           @ snd (snd out),
                   ssrPropsFn := t_ssrPropsFn ret, ssgPathsFn := t_ssgPathsFn ret,
                   jsxStaticClassNames := t_jsxStaticClassNames ret,
                   denoHooks := (case t_denoHooks ret of
                                   None \<Rightarrow> denoHooks (heap st a)
                                 | Some hs \<Rightarrow> if hs = [] then denoHooks (heap st a)
                                             else Some (map (\<lambda>h. trimPrefix h ''useDeno-'') hs)),
                   jsBuffer := Some (if filled (fst (snd out))
                                     then fst out @ [CHR 0x0A] @ ''//# sourceMappingURL='' @
                                          basename e (jsFile (heap st a)) @ ''.map''
                                     else fst out)\<rparr>),
                 errorLog := (if t_denoHooks ret \<noteq> None \<and> t_denoHooks ret \<noteq> Some [] \<and> \<not> ssr e
                              then errorLog st @ [''useDeno hook in SPA mode is illegal: '' @ specifier (heap st a)]
                              else errorLog st)\<rparr>)
             a (fst (snd out)), Inr True))"

text \<open>
  The block \<open>if (source) { ... }\<close> of \<open>#transpileModule\<close> for the module at \<open>a\<close>.  The
  answer \<open>Inr False\<close> is the early \<open>return\<close> on an unknown source type, \<open>Inl\<close> an
  exception, \<open>Inr True\<close> the normal end.  Every call of the compiler is recorded in
  \<open>transformLog\<close>.  (The block that reverts external imports drops the result of
  \<open>replaceAll\<close> and changes nothing.)
\<close>

definition transformStep :: "env \<Rightarrow> nat \<Rightarrow> bool \<Rightarrow> ModuleSource \<Rightarrow> state \<Rightarrow> state \<times> (error + bool)" where
  "transformStep e a hx src st =
     (if src_type src = Unknown then
        (st\<lparr>errorLog := errorLog st @ [''Unsupported module '' @ specifier (heap st a)]\<rparr>, Inr False)
      else
        (case cssStep e (specifier (heap st a)) src of
           Inl err \<Rightarrow> (st, Inl err)
         | Inr src1 \<Rightarrow>
             (case callTransform e (specifier (heap st a)) src1 hx of
                Inl err \<Rightarrow>
                  (st\<lparr>heap := (heap st)(a := (heap st a)\<lparr>isStyle := isStyle (heap st a) \<or> src_type src = CSS\<rparr>),
                      transformLog := transformLog st @ [specifier (heap st a)]\<rparr>, Inl err)
              | Inr ret \<Rightarrow>
                  (case (if \<not> isDev e then replaceStarExports e (case t_starExports ret of None \<Rightarrow> [] | Some xs \<Rightarrow> xs) (t_code ret)
                         else Inr (t_code ret)) of
                     Inl err \<Rightarrow>
                       (st\<lparr>heap := (heap st)(a := (heap st a)\<lparr>isStyle := isStyle (heap st a) \<or> src_type src = CSS\<rparr>),
                           transformLog := transformLog st @ [specifier (heap st a)]\<rparr>, Inl err)
                   | Inr jsCode \<Rightarrow>
                       afterCompiler e a ret jsCode
                         (st\<lparr>heap := (heap st)(a := (heap st a)\<lparr>isStyle := isStyle (heap st a) \<or> src_type src = CSS\<rparr>),
                             transformLog := transformLog st @ [specifier (heap st a)]\<rparr>)))))"

definition depOptions :: "bool \<Rightarrow> bool \<Rightarrow> CompileOptions" where
  "depOptions hx virt =
     \<lparr>o_source = None, o_forceRefresh = False, o_ignoreDeps = False, o_httpExternal = hx,
      o_virtual = virt\<rparr>"

text \<open>
  The lookup at the start of a dependency task: with \<open>ignoreDeps\<close> or for a virtual
  dependency the registered module is taken as it is, and a virtual dependency that is
  not registered is initialised as virtual.
\<close>

definition lookupDep :: "env \<Rightarrow> bool \<Rightarrow> DependencyDescriptor \<Rightarrow> state \<Rightarrow> state \<times> nat option" where
  "lookupDep e ign d st =
     (if ign \<or> dvirtual d then
        (case getModule st (dspecifier d) of
           Some b \<Rightarrow> (st, Some b)
         | None \<Rightarrow>
             if dvirtual d then
               (fst (initModule e (dspecifier d) (depOptions False True) st),
                Some (fst (snd (initModule e (dspecifier d) (depOptions False True) st))))
             else (st, None))
      else (st, None))"

text \<open>The end of a dependency task: the dependency's aggregate hash is written at \<open>hashLoc\<close>.\<close>

definition patchDep :: "env \<Rightarrow> nat \<Rightarrow> DependencyDescriptor \<Rightarrow> nat \<Rightarrow> state \<Rightarrow> state \<times> bool" where
  "patchDep e a d b st =
     (case hashLoc d of
        None \<Rightarrow> (st, False)
      | Some loc \<Rightarrow> replaceDepHash st a loc (computeModuleHash e st b))"

definition firstError :: "error option \<Rightarrow> error option \<Rightarrow> error option" where
  "firstError x y = (case x of None \<Rightarrow> y | Some v \<Rightarrow> Some v)"

text \<open>
  One task of the \<open>Promise.all\<close> of \<open>#transpileModule\<close>, for the dependency \<open>d\<close> of the
  module at \<open>a\<close>; \<open>rec\<close> is the recursive call of \<open>#transpileModule\<close>.  The result holds
  the state, the tracing set, whether the buffer of \<open>a\<close> was patched, and the exception
  of the task, if any.
\<close>

definition patchedBy :: "env \<Rightarrow> nat \<Rightarrow> DependencyDescriptor \<Rightarrow> nat \<Rightarrow> string set \<Rightarrow> state \<Rightarrow> (state \<times> string set \<times> bool \<times> error option) option" where
  "patchedBy e a d b tracing st =
     Some (fst (patchDep e a d b st), tracing, snd (patchDep e a d b st), None)"

definition afterDep :: "env \<Rightarrow> nat \<Rightarrow> DependencyDescriptor \<Rightarrow> nat \<Rightarrow> (state \<times> string set \<times> error option) option \<Rightarrow> (state \<times> string set \<times> bool \<times> error option) option" where
  "afterDep e a d b r =
     (case r of
        None \<Rightarrow> None
      | Some res \<Rightarrow>
          (case snd (snd res) of
             Some er \<Rightarrow> Some (fst res, fst (snd res), False, Some er)
           | None \<Rightarrow> patchedBy e a d b (fst (snd res)) (fst res)))"

definition initDep :: "(nat \<Rightarrow> ModuleSource option \<Rightarrow> state \<Rightarrow> string set \<Rightarrow> (state \<times> string set \<times> error option) option) \<Rightarrow> env \<Rightarrow> nat \<Rightarrow> DependencyDescriptor \<Rightarrow> string set \<Rightarrow> state \<times> nat \<times> ModuleSource option \<Rightarrow> (state \<times> string set \<times> bool \<times> error option) option" where
  "initDep rec e a d tracing r =
     (if external (heap (fst r) (fst (snd r))) then patchedBy e a d (fst (snd r)) tracing (fst r)
      else afterDep e a d (fst (snd r)) (rec (fst (snd r)) (snd (snd r)) (fst r) tracing))"

definition transpileDep :: "(nat \<Rightarrow> ModuleSource option \<Rightarrow> state \<Rightarrow> string set \<Rightarrow> (state \<times> string set \<times> error option) option) \<Rightarrow> env \<Rightarrow> nat \<Rightarrow> bool \<Rightarrow> DependencyDescriptor \<Rightarrow> nat option \<Rightarrow> state \<Rightarrow> string set \<Rightarrow> (state \<times> string set \<times> bool \<times> error option) option" where
  "transpileDep rec e a hx d found st tracing =
     (case found of
        Some b \<Rightarrow> patchedBy e a d b tracing st
      | None \<Rightarrow> initDep rec e a d tracing (initModule e (dspecifier d) (depOptions hx False) st))"

text \<open>
  The tasks of the \<open>Promise.all\<close>, run in the order of the dependency list: a task
  that throws does not stop its siblings, and the first exception is the one the
  caller sees.
\<close>

fun transpileDeps :: "(nat \<Rightarrow> ModuleSource option \<Rightarrow> state \<Rightarrow> string set \<Rightarrow> (state \<times> string set \<times> error option) option) \<Rightarrow> env \<Rightarrow> nat \<Rightarrow> bool \<Rightarrow> bool \<Rightarrow> DependencyDescriptor list \<Rightarrow> state \<Rightarrow> string set \<Rightarrow> bool \<Rightarrow> error option \<Rightarrow> (state \<times> string set \<times> bool \<times> error option) option" where
  "transpileDeps rec e a hx ign [] st tracing fsync err = Some (st, tracing, fsync, err)"
| "transpileDeps rec e a hx ign (d # ds) st tracing fsync err =
     (case transpileDep rec e a hx d (snd (lookupDep e ign d st)) (fst (lookupDep e ign d st)) tracing of
        None \<Rightarrow> None
      | Some res \<Rightarrow>
          transpileDeps rec e a hx ign ds (fst res) (fst (snd res)) (fsync \<or> fst (snd (snd res)))
            (firstError err (snd (snd (snd res)))))"

text \<open>
  The part of \<open>#transpileModule\<close> after the tracing guard, with the recursive call as
  a parameter.
\<close>

definition finishDeps :: "nat \<Rightarrow> (state \<times> string set \<times> bool \<times> error option) option \<Rightarrow> (state \<times> string set \<times> error option) option" where
  "finishDeps a r =
     (case r of
        None \<Rightarrow> None
      | Some res \<Rightarrow>
          Some (if fst (snd (snd res)) \<and> snd (snd (snd res)) = None then cacheModule (fst res) a None
                else fst res,
                fst (snd res), snd (snd (snd res))))"

definition sourceStep :: "env \<Rightarrow> nat \<Rightarrow> ModuleSource option \<Rightarrow> state \<Rightarrow> state \<times> (error + bool)" where
  "sourceStep e a src st =
     (case src of
        None \<Rightarrow> (st, Inr True)
      | Some s \<Rightarrow> transformStep e a (httpExternal (heap st a)) s st)"

definition depsStep :: "(nat \<Rightarrow> ModuleSource option \<Rightarrow> state \<Rightarrow> string set \<Rightarrow> (state \<times> string set \<times> error option) option) \<Rightarrow> env \<Rightarrow> nat \<Rightarrow> bool \<Rightarrow> bool \<Rightarrow> string set \<Rightarrow> state \<times> (error + bool) \<Rightarrow> (state \<times> string set \<times> error option) option" where
  "depsStep rec e a hx ign tracing r =
     (case snd r of
        Inl err \<Rightarrow> Some (fst r, tracing, Some err)
      | Inr go \<Rightarrow>
          if go \<and> deps (heap (fst r) a) \<noteq> [] then
            finishDeps a (transpileDeps rec e a hx ign (deps (heap (fst r) a)) (fst r) tracing False None)
          else Some (fst r, tracing, None))"

definition transpileBody :: "(nat \<Rightarrow> ModuleSource option \<Rightarrow> state \<Rightarrow> string set \<Rightarrow> (state \<times> string set \<times> error option) option) \<Rightarrow> env \<Rightarrow> nat \<Rightarrow> ModuleSource option \<Rightarrow> bool \<Rightarrow> state \<Rightarrow> string set \<Rightarrow> (state \<times> string set \<times> error option) option" where
  "transpileBody rec e a src ign st tracing =
     depsStep rec e a (httpExternal (heap st a)) ign (insert (specifier (heap st a)) tracing)
       (sourceStep e a src st)"

text \<open>
  \<open>#transpileModule(module, source, ignoreDeps, __tracing)\<close>.  The result holds the
  state, the tracing set and the exception, if any.  The fuel bounds the depth of the
  recursion; \<open>None\<close> is running out of it.
\<close>

primrec transpileModule :: "nat \<Rightarrow> env \<Rightarrow> nat \<Rightarrow> ModuleSource option \<Rightarrow> bool \<Rightarrow> state \<Rightarrow> string set \<Rightarrow> (state \<times> string set \<times> error option) option" where
  "transpileModule 0 e a src ign st tracing = None"
| "transpileModule (Suc n) e a src ign st tracing =
     (if specifier (heap st a) \<in> tracing then Some (st, tracing, None)
      else transpileBody (\<lambda>b s. transpileModule n e b s False) e a src ign st tracing)"

section \<open>compile and addModule\<close>

text \<open>
  \<open>compile(specifier, options)\<close>, with the source \<open>#initModule\<close> returned beside the
  module: \<open>Inl\<close> is the exception of the transpile pass.
\<close>

definition compiled :: "nat \<times> ModuleSource option \<Rightarrow> (state \<times> string set \<times> error option) option \<Rightarrow> (state \<times> (error + nat \<times> ModuleSource option)) option" where
  "compiled m r =
     (case r of
        None \<Rightarrow> None
      | Some res \<Rightarrow>
          (case snd (snd res) of
             Some er \<Rightarrow> Some (fst res, Inl er)
           | None \<Rightarrow> Some (fst res, Inr m)))"

definition transpileInit :: "nat \<Rightarrow> env \<Rightarrow> bool \<Rightarrow> state \<times> nat \<times> ModuleSource option \<Rightarrow> (state \<times> (error + nat \<times> ModuleSource option)) option" where
  "transpileInit fuel e ign r =
     (if external (heap (fst r) (fst (snd r))) then Some (fst r, Inr (snd r))
      else compiled (snd r) (transpileModule fuel e (fst (snd r)) (snd (snd r)) ign (fst r) {}))"

definition compileSrc :: "nat \<Rightarrow> env \<Rightarrow> string \<Rightarrow> CompileOptions \<Rightarrow> state \<Rightarrow> (state \<times> (error + nat \<times> ModuleSource option)) option" where
  "compileSrc fuel e sp opts st = transpileInit fuel e (o_ignoreDeps opts) (initModule e sp opts st)"

definition compile :: "nat \<Rightarrow> env \<Rightarrow> string \<Rightarrow> CompileOptions \<Rightarrow> state \<Rightarrow> (state \<times> (error + nat)) option" where
  "compile fuel e sp opts st =
     (case compileSrc fuel e sp opts st of
        None \<Rightarrow> None
      | Some res \<Rightarrow>
          (case snd res of
             Inl err \<Rightarrow> Some (fst res, Inl err)
           | Inr r \<Rightarrow> Some (fst res, Inr (fst r))))"

text \<open>
  The source object of \<open>addModule\<close> after the pass: the CSS step of \<open>#transpileModule\<close>
  rewrites it in place when the pass transpiles it.
\<close>

definition sourceAfter :: "env \<Rightarrow> string \<Rightarrow> ModuleSource \<Rightarrow> ModuleSource option \<Rightarrow> ModuleSource" where
  "sourceAfter e sp src used =
     (case used of
        None \<Rightarrow> src
      | Some s \<Rightarrow> (case cssStep e sp s of Inl err \<Rightarrow> s | Inr s1 \<Rightarrow> s1))"

definition routeSpecifier :: "string \<Rightarrow> string" where
  "routeSpecifier sp = (if startsWith sp ''pages/'' \<or> startsWith sp ''api/'' then ''/'' @ sp else sp)"

definition updateRouting :: "env \<Rightarrow> string \<Rightarrow> state \<Rightarrow> state" where
  "updateRouting e sp st =
     (if startsWith sp ''/pages/'' \<and> isPageModule e sp then
        st\<lparr>pageRouting := pageRouting st @ [createRouteUpdate e sp]\<rparr>
      else if startsWith sp ''/api/'' \<and> \<not> startsWith sp ''/api/_middlewares.'' then
        st\<lparr>apiRouting := apiRouting st @ [createRouteUpdate e sp]\<rparr>
      else st)"

text \<open>
  \<open>addModule(specifier, sourceCode, forceRefresh)\<close>: the source type comes from the
  specifier alone; an unknown type throws before anything else is done.
\<close>

definition addModule :: "nat \<Rightarrow> env \<Rightarrow> string \<Rightarrow> string \<Rightarrow> bool \<Rightarrow> state \<Rightarrow> (state \<times> (error + nat)) option" where
  "addModule fuel e sp sourceCode forceRefresh st =
     (if getSourceType e sp None = Unknown then
        Some (st, Inl (Error ''addModule: unknown source type''))
      else
        (case compileSrc fuel e sp
                \<lparr>o_source = Some (ModuleSource sourceCode (getSourceType e sp None) None),
                 o_forceRefresh = forceRefresh, o_ignoreDeps = False, o_httpExternal = False,
                 o_virtual = False\<rparr> st of
           None \<Rightarrow> None
         | Some res \<Rightarrow>
             (case snd res of
                Inl err \<Rightarrow> Some (fst res, Inl err)
              | Inr r \<Rightarrow>
                  Some ((updateRouting e (routeSpecifier sp) (fst res))
                          \<lparr>heap := (heap (fst res))(fst r :=
                              (heap (fst res) (fst r))\<lparr>source :=
                                 Some (sourceAfter e (specifier (heap (fst res) (fst r)))
                                         (ModuleSource sourceCode (getSourceType e sp None) None)
                                         (snd r))\<rparr>)\<rparr>,
                        Inr (fst r)))))"

section \<open>Predicates of the statements\<close>







text \<open>
  The specifiers \<open>getModule\<close> can answer, and the specifiers handed to the compiler
  between two states.  A pass from \<open>st\<close> and the tracing set \<open>tracing\<close> to \<open>st'\<close> and
  \<open>tracing'\<close> is \<open>tracedOnce\<close> when the tracing set has grown, the compiler log has
  grown at its end, and the new entries are distinct specifiers that entered the
  tracing set during the pass.
\<close>

definition known :: "state \<Rightarrow> string set" where
  "known st = {sp. getModule st sp \<noteq> None}"






section \<open>Concrete collaborators and states\<close>

text \<open>
  A stand-in for the digests: a rolling checksum printed as six decimal digits.  It is
  used only to run the model on concrete inputs.
\<close>

definition digit6 :: "nat \<Rightarrow> string" where
  "digit6 n = map (\<lambda>k. ''0123456789'' ! ((n div 10 ^ k) mod 10)) [5, 4, 3, 2, 1, 0]"

definition toy_digest :: "string \<Rightarrow> string" where
  "toy_digest s = digit6 (foldl (\<lambda>h c. (h * 31 + of_char c) mod 1000000) 7 s)"

definition blankModule :: Module where
  "blankModule = \<lparr>specifier = [], deps = [], external = False, sourceHash = [], jsFile = [],
     jsBuffer = None, httpExternal = False, isStyle = False, denoHooks = None, ssrPropsFn = None,
     ssgPathsFn = None, jsxStaticClassNames = None, ready = True, csrCode = None, source = None\<rparr>"

definition endsWith :: "string \<Rightarrow> string \<Rightarrow> bool" where
  "endsWith s suf = (length suf \<le> length s \<and> drop (length s - length suf) s = suf)"

definition extSourceType :: "string \<Rightarrow> string option \<Rightarrow> SourceType" where
  "extSourceType s ct =
     (if endsWith s ''.tsx'' then TSX else if endsWith s ''.ts'' then TS
      else if endsWith s ''.jsx'' then JSX else if endsWith s ''.js'' then JS
      else if endsWith s ''.css'' then CSS else Unknown)"

definition trimExt :: "string \<Rightarrow> string" where
  "trimExt s =
     (if endsWith s ''.tsx'' \<or> endsWith s ''.jsx'' then take (length s - 4) s
      else if endsWith s ''.ts'' \<or> endsWith s ''.js'' then take (length s - 3) s
      else s)"

definition env0 :: env where
  "env0 = \<lparr>resolverListeners = [], loadListeners = [], transformListeners = [], plugins = [],
     importMap = [], cssConfig = [], isDev = True, reload = False, ssr = True,
     sha1 = toy_digest, md5 = toy_digest,
     getSourceType = extSourceType, toLocalPath = (\<lambda>s. s), trimBuiltinModuleExts = trimExt,
     basename = (\<lambda>s. s), isLikelyHttpURL = (\<lambda>s. False), isLocalhostUrl = (\<lambda>s. False),
     fetchModule = (\<lambda>s. Inl (Error ''No such file'')),
     transform = (\<lambda>s c t h. Inl (Error ''transform'')),
     fastTransform = (\<lambda>s c. Inl (Error ''transform'')),
     cssLoader = (\<lambda>s c. Inr (c, None)), parseModuleExportNames = (\<lambda>s. Inr []),
     isPageModule = (\<lambda>s. False), createRouteUpdate = (\<lambda>s. (s, s, None))\<rparr>"

definition opts0 :: CompileOptions where
  "opts0 = \<lparr>o_source = None, o_forceRefresh = False, o_ignoreDeps = False,
     o_httpExternal = False, o_virtual = False\<rparr>"

definition emptyState :: state where
  "emptyState = \<lparr>heap = (\<lambda>a. blankModule), nextAddr = 0, modules = [], appModule = None,
     jsFiles = Map.empty, metaFiles = Map.empty, mapFiles = Map.empty, bundlingFiles = {},
     session = {}, pageRouting = [], apiRouting = [], transformLog = [], loadLog = [],
     errorLog = [], warnLog = [], patchedLog = [], cascadeLog = []\<rparr>"

definition dep :: "string \<Rightarrow> int \<Rightarrow> DependencyDescriptor" where
  "dep s loc = \<lparr>dspecifier = s, isDynamic = False, hashLoc = Some loc, dvirtual = False\<rparr>"

definition fuel4 :: nat where
  "fuel4 = Suc (Suc (Suc (Suc 0)))"

text \<open>
  The scenario of the specification: \<open>/pages/index\<close> embeds the hash of
  \<open>/components/button\<close>, whose source hash has changed.
\<close>

definition button :: Module where
  "button = blankModule\<lparr>specifier := ''/components/button.tsx'', sourceHash := ''h2'',
     jsFile := ''/components/button.js'', jsBuffer := Some ''export default 1''\<rparr>"

definition index :: Module where
  "index = blankModule\<lparr>specifier := ''/pages/index.tsx'', sourceHash := ''h1'',
     deps := [dep ''/components/button.tsx'' 8],
     jsFile := ''/pages/index.js'', jsBuffer := Some ''import \"abc123\";'',
     csrCode := Some ''stripped''\<rparr>"

definition pagesState :: state where
  "pagesState = emptyState\<lparr>heap := (\<lambda>a. blankModule)(0 := button, 1 := index), nextAddr := 2,
      modules := [(''/components/button.tsx'', 0), (''/pages/index.tsx'', 1)]\<rparr>"

text \<open>
  A diamond: \<open>/n.ts\<close> imports \<open>/a.ts\<close> and \<open>/m.ts\<close>, and \<open>/m.ts\<close> imports \<open>/a.ts\<close>.
\<close>

definition modA :: Module where
  "modA = blankModule\<lparr>specifier := ''/a.ts'', sourceHash := ''ha'', jsFile := ''/a.js'',
     jsBuffer := Some ''export default 1''\<rparr>"

definition modM :: Module where
  "modM = blankModule\<lparr>specifier := ''/m.ts'', sourceHash := ''hm'', jsFile := ''/m.js'',
     deps := [dep ''/a.ts'' 8], jsBuffer := Some ''import \"000000\";''\<rparr>"

definition modN :: Module where
  "modN = blankModule\<lparr>specifier := ''/n.ts'', sourceHash := ''hn'', jsFile := ''/n.js'',
     deps := [dep ''/a.ts'' 8, dep ''/m.ts'' 24],
     jsBuffer := Some ''import \"000000\";import \"000000\";''\<rparr>"

definition diamondState :: state where
  "diamondState = emptyState\<lparr>heap := (\<lambda>a. blankModule)(0 := modA, 1 := modM, 2 := modN),
      nextAddr := 3, modules := [(''/a.ts'', 0), (''/m.ts'', 1), (''/n.ts'', 2)]\<rparr>"

text \<open>
  Two resolvers: the first marks the packages of a CDN external, the second matches
  every specifier and would rewrite it.
\<close>

definition envExternal :: env where
  "envExternal = env0\<lparr>resolverListeners :=
     [ResolveListener 0 (\<lambda>s. startsWith s ''https://esm.sh/'') (\<lambda>s. ResolveResult None True None False),
      ResolveListener 1 (\<lambda>s. True) (\<lambda>s. ResolveResult (Some ''/other.ts'') False None False)]\<rparr>"

text \<open>A registered module \<open>/a.ts\<close> with a previous build, and no source file to load.\<close>

definition builtA :: Module where
  "builtA = blankModule\<lparr>specifier := ''/a.ts'', sourceHash := ''h1'', jsFile := ''/a.js'',
     jsBuffer := Some ''export default 1''\<rparr>"

definition builtState :: state where
  "builtState = emptyState\<lparr>heap := (\<lambda>a. blankModule)(0 := builtA), nextAddr := 1,
      modules := [(''/a.ts'', 0)]\<rparr>"

definition refreshOpts :: CompileOptions where
  "refreshOpts = opts0\<lparr>o_forceRefresh := True\<rparr>"

text \<open>A source tree with the one file \<open>/a.ts\<close>, and build directories with a bad sidecar.\<close>

definition envFiles :: env where
  "envFiles = env0\<lparr>fetchModule :=
     (\<lambda>s. if s = ''/a.ts'' then Inr (''export default 1'', None) else Inl (Error ''No such file''))\<rparr>"

definition staleMeta :: Meta where
  "staleMeta = \<lparr>m_specifier = JString ''/b.ts'', m_sourceHash = JString ''h0'', m_deps = Some [],
     m_httpExternal = None, m_isStyle = Some True, m_denoHooks = None, m_ssrPropsFn = None,
     m_ssgPathsFn = None, m_jsxStaticClassNames = None, m_csrCode = None, m_source = None\<rparr>"

definition unparsableState :: state where
  "unparsableState = emptyState\<lparr>metaFiles := [''/a.js'' \<mapsto> Unparsable]\<rparr>"

definition mismatchState :: state where
  "mismatchState = emptyState\<lparr>metaFiles := [''/a.js'' \<mapsto> Parsed staleMeta]\<rparr>"

text \<open>
  Two plugins with transform hooks for every specifier, registered in the two possible
  orders.
\<close>

definition noTransform :: "Module \<Rightarrow> string \<Rightarrow> string option \<Rightarrow> error + TransformOutput option" where
  "noTransform m c sm = Inr None"

definition envAlphaBeta :: env where
  "envAlphaBeta = env0\<lparr>
     plugins := [Plugin ''alpha'' (Some (Inr ''c1'')), Plugin ''beta'' (Some (Inr ''c2''))],
     transformListeners := [TransformListener 0 (RegExp (\<lambda>s. True)) noTransform,
                            TransformListener 1 (RegExp (\<lambda>s. True)) noTransform]\<rparr>"

definition envBetaAlpha :: env where
  "envBetaAlpha = env0\<lparr>
     plugins := [Plugin ''beta'' (Some (Inr ''c2'')), Plugin ''alpha'' (Some (Inr ''c1''))],
     transformListeners := [TransformListener 0 (RegExp (\<lambda>s. True)) noTransform,
                            TransformListener 1 (RegExp (\<lambda>s. True)) noTransform]\<rparr>"

definition srcA :: ModuleSource where
  "srcA = ModuleSource ''export default 1'' TS None"

text \<open>
  Two source files that import each other, and a compiler that answers each with its
  import resolved and marked.
\<close>

definition compiledTo :: "string \<Rightarrow> CompiledDep list \<Rightarrow> TransformResult" where
  "compiledTo code ds = \<lparr>t_code = code, t_deps = Some ds, t_denoHooks = None, t_ssrPropsFn = None,
     t_ssgPathsFn = None, t_starExports = None, t_jsxStaticClassNames = None, t_map = None\<rparr>"

definition envCycle :: env where
  "envCycle = env0\<lparr>
     fetchModule := (\<lambda>s. if s = ''/a.ts'' then Inr (''import b from ./b.ts'', None)
                          else if s = ''/b.ts'' then Inr (''import a from ./a.ts'', None)
                          else Inl (Error ''No such file'')),
     transform := (\<lambda>s c t h.
        if s = ''/a.ts'' then
          Inr (compiledTo ''import b from ./b.js#/b.ts@000000''
                 [CompiledDep ''/b.ts'' ''./b.js#/b.ts@000000'' False])
        else if s = ''/b.ts'' then
          Inr (compiledTo ''import a from ./a.js#/a.ts@000000''
                 [CompiledDep ''/a.ts'' ''./a.js#/a.ts@000000'' False])
        else Inl (Error ''transform''))\<rparr>"

text \<open>The registry, the heap and the build directory after \<open>/a.ts\<close> has been compiled.\<close>

definition cycA :: Module where
  "cycA = blankModule\<lparr>specifier := ''/a.ts'', deps := [dep ''/b.ts'' 27], sourceHash := ''598992'',
     jsFile := ''/a.js'', jsBuffer := Some ''import b from ./b.js#/b.ts@717429''\<rparr>"

definition cycB :: Module where
  "cycB = blankModule\<lparr>specifier := ''/b.ts'', deps := [dep ''/a.ts'' 27], sourceHash := ''019440'',
     jsFile := ''/b.js'', jsBuffer := Some ''import a from ./a.js#/a.ts@278043''\<rparr>"

definition cycleBuilt :: state where
  "cycleBuilt = emptyState\<lparr>
     heap := (\<lambda>a. blankModule)(Suc 0 := cycB, 0 := cycA),
     nextAddr := Suc (Suc 0),
     modules := [(''/a.ts'', 0), (''/b.ts'', Suc 0)],
     jsFiles := [''/b.js'' \<mapsto> ''import a from ./a.js#/a.ts@278043'',
                 ''/a.js'' \<mapsto> ''import b from ./b.js#/b.ts@717429''],
     metaFiles := [''/b.js'' \<mapsto> Parsed (metaOf cycB), ''/a.js'' \<mapsto> Parsed (metaOf cycA)],
     transformLog := [''/a.ts'', ''/b.ts''],
     loadLog := [''/a.ts'', ''/b.ts'']\<rparr>"

(* PROOFS *)

section \<open>Byte copies\<close>

lemmas fixture_defs = env0_def emptyState_def blankModule_def toy_digest_def digit6_def dep_def
  fuel4_def button_def index_def pagesState_def modA_def modM_def modN_def diamondState_def
  endsWith_def extSourceType_def trimExt_def opts0_def

lemmas model_defs = computeModuleHash_def getModule_def hashDep_def replaceDepHash_def
  writeHash_def hashOnce_def getModuleJS_def cacheModule_def metaOf_def slice_def copy_def
  filled_def



section \<open>The cascade patches hash markers and nothing else\<close>

















section \<open>The tracing set of the cascade\<close>

text \<open>
  C2.  On the diamond, one cascade started at \<open>/a.ts\<close> returns, and \<open>/n.ts\<close> passes the
  tracing guard twice: once as the dependent of \<open>/m.ts\<close> and once as the dependent of
  \<open>/a.ts\<close>.
\<close>

theorem cascade_diamond_visits_twice:
  "map_option (\<lambda>s. (cascadeLog s, patchedLog s))
     (applyCompilationSideEffect fuel4 env0 0 {} diamondState) =
   Some ([''/a.ts'', ''/m.ts'', ''/n.ts'', ''/n.ts''], [1, 2, 2])"
  by (simp add: fixture_defs model_defs)

section \<open>Evaluation of the initialize-module protocol\<close>

lemmas init_fixture_defs = env0_def emptyState_def blankModule_def toy_digest_def digit6_def
  opts0_def envExternal_def builtA_def builtState_def refreshOpts_def envFiles_def staleMeta_def
  unparsableState_def mismatchState_def endsWith_def extSourceType_def trimExt_def
  envAlphaBeta_def envBetaAlpha_def srcA_def noTransform_def

lemmas init_defs = initModule_def resolveSpecifier_def initResolved_def initFresh_def
  afterPublish_def publish_def restoreMeta_def loadStep_def compareHash_def obtainSource_def
  deferReady_def needLoad_def isRemote_def isReload_def reusable_def runResolvers_def truthy_def
  resolveModuleSource_def computeSourceHash_def sourceHashInput_def matchedPlugins_def
  importMapChunk_def newModule_def externalModule_def metaConsistent_def isFilledString_def
  assignMeta_def loaderType_def startsWith_def setAdd_def isRegExpMatch_def


section \<open>Registry list\<close>



section \<open>External modules\<close>

text \<open>
  C7, as stated, fails: a specifier resolved as external is returned but not
  registered.  With the two resolvers of \<open>envExternal\<close>, the registry has no entry for
  the specifier after \<open>#initModule\<close>.
\<close>

theorem external_not_registered_counterexample:
  "map_of (modules (fst (initModule envExternal ''https://esm.sh/react'' opts0 emptyState)))
     ''https://esm.sh/react'' = None"
  by (simp add: init_defs init_fixture_defs)

text \<open>
  C7, amended.  When no source is supplied and the first resolver whose pattern
  matches answers \<open>external\<close>, \<open>#initModule\<close> returns a module that is external and
  ready, has no dependencies, an empty source hash and no compiled bytes, under the
  resolved specifier, with no source; the registry, the load log, the compiler log and
  the build directory are as before (the module is not registered, and neither the
  loader nor the compiler is invoked).
\<close>

theorem external_module_returned:
  assumes "o_source opts = None"
    and "find (\<lambda>l. rl_test l sp) (resolverListeners e) = Some l"
    and "r_external (rl_resolve l sp)"
  shows "case initModule e sp opts st of (st', a, src) \<Rightarrow>
           src = None \<and> external (heap st' a) \<and> ready (heap st' a) \<and> deps (heap st' a) = [] \<and>
           sourceHash (heap st' a) = [] \<and> jsBuffer (heap st' a) = None \<and>
           specifier (heap st' a) =
             (case truthy (r_specifier (rl_resolve l sp)) of None \<Rightarrow> sp | Some s \<Rightarrow> s) \<and>
           modules st' = modules st \<and> loadLog st' = loadLog st \<and>
           transformLog st' = transformLog st \<and> jsFiles st' = jsFiles st \<and>
           metaFiles st' = metaFiles st"
  using assms
  by (simp add: initModule_def resolveSpecifier_def initResolved_def runResolvers_def externalModule_def newModule_def
      split: option.splits)

theorem external_module_returned_witness:
  "case initModule envExternal ''https://esm.sh/react'' opts0 emptyState of (st', a, src) \<Rightarrow>
     src = None \<and> external (heap st' a) \<and> ready (heap st' a) \<and> deps (heap st' a) = [] \<and>
     sourceHash (heap st' a) = [] \<and> jsBuffer (heap st' a) = None \<and>
     specifier (heap st' a) = ''https://esm.sh/react'' \<and>
     modules st' = [] \<and> loadLog st' = [] \<and> transformLog st' = []"
proof -
  have 1: "o_source opts0 = None" by (simp add: opts0_def)
  have 2: "find (\<lambda>l. rl_test l ''https://esm.sh/react'') (resolverListeners envExternal) =
             Some (ResolveListener 0 (\<lambda>s. startsWith s ''https://esm.sh/'')
                     (\<lambda>s. ResolveResult None True None False))"
    by (simp add: envExternal_def env0_def startsWith_def)
  have 3: "r_external (rl_resolve (ResolveListener 0 (\<lambda>s. startsWith s ''https://esm.sh/'')
                     (\<lambda>s. ResolveResult None True None False)) ''https://esm.sh/react'')"
    by simp
  show ?thesis
    using external_module_returned[OF 1 2 3, of emptyState]
    by (auto simp: truthy_def emptyState_def split: prod.splits)
qed

section \<open>addModule and unknown source types\<close>

text \<open>
  C10.  When the source type of the specifier is unknown, \<open>addModule\<close> throws the error
  with message \<open>addModule: unknown source type\<close> and the state (registry, heap, routing
  tables, build directory, logs) is unchanged.
\<close>

theorem addModule_unknown_source_type:
  assumes "getSourceType e sp None = Unknown"
  shows "addModule fuel e sp sourceCode forceRefresh st =
           Some (st, Inl (Error ''addModule: unknown source type''))"
  using assms by (simp add: addModule_def)

theorem addModule_unknown_source_type_witness:
  "getSourceType env0 ''/notes.txt'' None = Unknown \<and>
   addModule fuel4 env0 ''/notes.txt'' ''hello'' False emptyState =
     Some (emptyState, Inl (Error ''addModule: unknown source type''))"
proof -
  have 1: "getSourceType env0 ''/notes.txt'' None = Unknown"
    by (simp add: env0_def extSourceType_def endsWith_def)
  show ?thesis using 1 addModule_unknown_source_type[OF 1] by simp
qed

section \<open>Failure of the load step\<close>









section \<open>The source hash and the order of its inputs\<close>

text \<open>
  C6, as stated, fails: the checksums of the matching plugins are hashed in the order
  of the listener list, not in a sorted order.  Two configurations that differ only in
  which of two plugins was registered first feed the hasher different chunks, and the
  hashes differ.
\<close>

theorem sourceHash_registration_order_counterexample:
  "sourceHashInput envAlphaBeta ''/a.ts'' srcA =
     Inr [''export default 1'', [], ''alpha'', ''c1'', ''beta'', ''c2''] \<and>
   sourceHashInput envBetaAlpha ''/a.ts'' srcA =
     Inr [''export default 1'', [], ''beta'', ''c2'', ''alpha'', ''c1''] \<and>
   computeSourceHash envAlphaBeta ''/a.ts'' srcA \<noteq> computeSourceHash envBetaAlpha ''/a.ts'' srcA"
  by (simp add: init_defs init_fixture_defs)

lemma sort_keys_eq:
  assumes "distinct (map fst im1)" and "distinct (map fst im2)" and "set im1 = set im2"
  shows "sort (map fst im1) = sort (map fst im2)"
proof (rule sorted_distinct_set_unique)
  show "sorted (sort (map fst im1))" "sorted (sort (map fst im2))" by simp_all
  show "distinct (sort (map fst im1))" "distinct (sort (map fst im2))" using assms by simp_all
  show "set (sort (map fst im1)) = set (sort (map fst im2))" using assms(3) by simp
qed

lemma importMapChunk_order:
  assumes "distinct (map fst im1)" and "distinct (map fst im2)" and "set im1 = set im2"
  shows "importMapChunk im1 = importMapChunk im2"
proof -
  have "map_of im1 = map_of im2" using assms by (simp add: map_of_inject_set)
  then show ?thesis unfolding importMapChunk_def using sort_keys_eq[OF assms] by simp
qed

text \<open>
  C6, amended.  The source hash is a function of the source, the import map, the
  listeners and the plugins, and it does not depend on the insertion order of the
  import map: two import maps with the same entries (keys distinct) give the same
  hash.
\<close>

theorem sourceHash_import_map_order:
  assumes "distinct (map fst im1)" and "distinct (map fst im2)" and "set im1 = set im2"
  shows "computeSourceHash (e\<lparr>importMap := im1\<rparr>) sp src =
         computeSourceHash (e\<lparr>importMap := im2\<rparr>) sp src"
  using importMapChunk_order[OF assms]
  by (simp add: computeSourceHash_def sourceHashInput_def matchedPlugins_def cong: sum.case_cong)

theorem sourceHash_import_map_order_witness:
  "computeSourceHash (env0\<lparr>importMap := [(''react'', ''https://esm.sh/react''), (''~/'', ''./'')]\<rparr>)
     ''/a.ts'' srcA =
   computeSourceHash (env0\<lparr>importMap := [(''~/'', ''./''), (''react'', ''https://esm.sh/react'')]\<rparr>)
     ''/a.ts'' srcA"
proof -
  have 1: "distinct (map fst [(''react'', ''https://esm.sh/react''), (''~/'', ''./'')])" by simp
  have 2: "distinct (map fst [(''~/'', ''./''), (''react'', ''https://esm.sh/react'')])" by simp
  have 3: "set [(''react'', ''https://esm.sh/react''), (''~/'', ''./'')] =
           set [(''~/'', ''./''), (''react'', ''https://esm.sh/react'')]" by auto
  show ?thesis by (rule sourceHash_import_map_order[OF 1 2 3])
qed


section \<open>Corrupt sidecars\<close>















section \<open>The fuel of the aggregate hash\<close>

lemma known_subset: "known st \<subseteq> insert ''app'' (fst ` set (modules st))"
  by (auto simp: known_def getModule_def dest!: map_of_SomeD split: if_splits intro: rev_image_eqI)

lemma known_finite: "finite (known st)"
  by (rule finite_subset[OF known_subset]) simp

lemma known_card: "card (known st) \<le> Suc (length (modules st))"
proof -
  have "card (known st) \<le> card (insert ''app'' (fst ` set (modules st)))"
    by (rule card_mono[OF _ known_subset]) simp
  also have "\<dots> \<le> Suc (card (fst ` set (modules st)))" by (simp add: card_insert_le_m1 card_insert_if)
  also have "\<dots> \<le> Suc (card (set (modules st)))" by (simp add: card_image_le)
  also have "\<dots> \<le> Suc (length (modules st))" by (simp add: card_length)
  finally show ?thesis .
qed

lemma lookupDepsEach_step:
  assumes P: "\<And>sp acc tracing. card (known st - tracing) < n \<Longrightarrow>
      \<exists>r. lookupDeps n st cb sp (acc, tracing) = Some r \<and> tracing \<subseteq> fst (snd r)"
  shows "card (known st - tracing) < n \<Longrightarrow>
      \<exists>r. lookupDepsEach n st cb ss (acc, tracing) = Some r \<and> tracing \<subseteq> fst (snd r)"
proof (induction ss arbitrary: acc tracing)
  case Nil
  then show ?case by simp
next
  case (Cons s ss)
  from P[OF Cons.prems] obtain r where r: "lookupDeps n st cb s (acc, tracing) = Some r"
    and sub: "tracing \<subseteq> fst (snd r)" by blast
  have "known st - fst (snd r) \<subseteq> known st - tracing" using sub by blast
  then have "card (known st - fst (snd r)) \<le> card (known st - tracing)"
    by (intro card_mono) (simp_all add: known_finite)
  then have c: "card (known st - fst (snd r)) < n" using Cons.prems by simp
  from Cons.IH[OF c] obtain r' where "lookupDepsEach n st cb ss (fst r, fst (snd r)) = Some r'"
    and "fst (snd r) \<subseteq> fst (snd r')" by blast
  then show ?case using r sub by (cases r') auto
qed

lemma lookupDeps_fuel:
  "card (known st - tracing) < n \<Longrightarrow>
     \<exists>r. lookupDeps n st cb sp (acc, tracing) = Some r \<and> tracing \<subseteq> fst (snd r)"
proof (induction n arbitrary: sp acc tracing)
  case 0
  then show ?case by simp
next
  case (Suc n)
  show ?case
  proof (cases "getModule st sp")
    case None
    then show ?thesis by simp
  next
    case (Some a)
    show ?thesis
    proof (cases "sp \<in> tracing")
      case True
      then show ?thesis using Some by simp
    next
      case False
      obtain acc1 go where cb: "callbacks cb (deps (heap st a)) acc = (acc1, go)"
        by (cases "callbacks cb (deps (heap st a)) acc")
      have "sp \<in> known st - tracing" using Some False by (simp add: known_def)
      then have "card (known st - insert sp tracing) < card (known st - tracing)"
        by (metis Diff_insert card_Diff1_less finite_Diff known_finite)
      then have c: "card (known st - insert sp tracing) < n" using Suc.prems by simp
      from lookupDepsEach_step[where n=n and st=st and cb=cb, OF Suc.IH c]
      obtain r where "lookupDepsEach n st cb (map dspecifier (deps (heap st a))) (acc1, insert sp tracing) = Some r"
        and "insert sp tracing \<subseteq> fst (snd r)" by blast
      then show ?thesis using Some False cb by (cases r) auto
    qed
  qed
qed

lemma lookupDeps_enough_fuel:
  "\<exists>r. lookupDeps (Suc (Suc (length (modules st)))) st cb sp (acc, {}) = Some r"
proof -
  have "card (known st - {}) < Suc (Suc (length (modules st)))"
    using known_card[of st] by simp
  from lookupDeps_fuel[where cb=cb and sp=sp and acc=acc, OF this] show ?thesis by blast
qed

section \<open>One transform per specifier and pass\<close>



lemma deferReady_tlog: "transformLog (deferReady sp isNew a err st) = transformLog st"
  by (simp add: deferReady_def split: option.splits error.splits)

lemma restoreMeta_tlog: "transformLog (restoreMeta e sp a st) = transformLog st"
  by (simp add: restoreMeta_def split: option.splits sidecar.splits)

lemma loadStep_tlog: "transformLog (fst (loadStep e sp data opts isNew a st)) = transformLog st"
  by (simp add: loadStep_def compareHash_def obtainSource_def deferReady_tlog
      split: option.splits sum.splits)

lemma afterPublish_tlog:
  "transformLog (fst (afterPublish e sp data opts isNew a st)) = transformLog st"
  by (simp add: afterPublish_def loadStep_tlog deferReady_tlog)















lemmas transpile_defs = compile_def compileSrc_def transpileInit_def compiled_def
  transpileBody_def depsStep_def sourceStep_def finishDeps_def transpileDep_def initDep_def
  afterDep_def patchedBy_def patchDep_def lookupDep_def depOptions_def firstError_def
  transformStep_def afterCompiler_def cssStep_def callTransform_def compiledDeps_def
  toDescriptor_def rawDescriptor_def cacheModule_def metaOf_def filled_def
  replaceDepHash_def writeHash_def getModuleJS_def computeModuleHash_def hashDep_def
  getModule_def slice_def copy_def indexOf_def trimPrefix_def

lemmas cycle_defs = cycleBuilt_def cycA_def cycB_def dep_def envCycle_def compiledTo_def fuel4_def

lemma cycle_first_compile:
  "compile fuel4 envCycle ''/a.ts'' opts0 emptyState = Some (cycleBuilt, Inr 0)"
  by (simp add: transpile_defs init_defs init_fixture_defs cycle_defs)

text \<open>
  The fuel only bounds the recursion: a pass that returns with some fuel returns the
  same with more.
\<close>

lemma transpileDep_mono:
  assumes R: "\<And>b s st tr r. rec b s st tr = Some r \<Longrightarrow> rec' b s st tr = Some r"
    and r: "transpileDep rec e a hx d found st tracing = Some res"
  shows "transpileDep rec' e a hx d found st tracing = Some res"
proof (cases found)
  case (Some b)
  then show ?thesis using r by (simp add: transpileDep_def)
next
  case None
  define i where "i = initModule e (dspecifier d) (depOptions hx False) st"
  have r': "initDep rec e a d tracing i = Some res"
    using r None by (simp add: transpileDep_def i_def)
  have "initDep rec' e a d tracing i = Some res"
  proof (cases "external (heap (fst i) (fst (snd i)))")
    case True
    then show ?thesis using r' by (simp add: initDep_def)
  next
    case False
    then have ad: "afterDep e a d (fst (snd i)) (rec (fst (snd i)) (snd (snd i)) (fst i) tracing) = Some res"
      using r' by (simp add: initDep_def)
    then obtain q where q: "rec (fst (snd i)) (snd (snd i)) (fst i) tracing = Some q"
      by (auto simp: afterDep_def split: option.splits)
    from R[OF q] ad q False show ?thesis by (simp add: initDep_def)
  qed
  then show ?thesis using None by (simp add: transpileDep_def i_def)
qed

lemma transpileDeps_mono:
  assumes R: "\<And>b s st tr r. rec b s st tr = Some r \<Longrightarrow> rec' b s st tr = Some r"
  shows "transpileDeps rec e a hx ign ds st tracing fsync err = Some res \<Longrightarrow>
         transpileDeps rec' e a hx ign ds st tracing fsync err = Some res"
proof (induction ds arbitrary: st tracing fsync err)
  case Nil
  then show ?case by simp
next
  case (Cons d ds)
  define l where "l = lookupDep e ign d st"
  from Cons.prems obtain q where q: "transpileDep rec e a hx d (snd l) (fst l) tracing = Some q"
    and rest: "transpileDeps rec e a hx ign ds (fst q) (fst (snd q)) (fsync \<or> fst (snd (snd q)))
                 (firstError err (snd (snd (snd q)))) = Some res"
    by (auto simp: l_def split: option.splits)
  from transpileDep_mono[where rec'=rec', OF R q] Cons.IH[OF rest]
  show ?case by (simp add: l_def)
qed

lemma transpileBody_mono:
  assumes R: "\<And>b s st tr r. rec b s st tr = Some r \<Longrightarrow> rec' b s st tr = Some r"
    and r: "transpileBody rec e a src ign st tracing = Some res"
  shows "transpileBody rec' e a src ign st tracing = Some res"
proof -
  define s where "s = sourceStep e a src st"
  define tr1 where "tr1 = insert (specifier (heap st a)) tracing"
  define hx where "hx = httpExternal (heap st a)"
  have d: "depsStep rec e a hx ign tr1 s = Some res"
    using r by (simp add: transpileBody_def s_def tr1_def hx_def)
  have "depsStep rec' e a hx ign tr1 s = Some res"
  proof (cases "snd s")
    case (Inl er)
    then show ?thesis using d by (simp add: depsStep_def)
  next
    case (Inr go)
    show ?thesis
    proof (cases "go \<and> deps (heap (fst s) a) \<noteq> []")
      case False
      then show ?thesis using d Inr by (auto simp: depsStep_def)
    next
      case True
      then have f: "finishDeps a (transpileDeps rec e a hx ign (deps (heap (fst s) a)) (fst s) tr1 False None) = Some res"
        using d Inr by (simp add: depsStep_def)
      then obtain q where q: "transpileDeps rec e a hx ign (deps (heap (fst s) a)) (fst s) tr1 False None = Some q"
        by (auto simp: finishDeps_def split: option.splits)
      from transpileDeps_mono[where rec'=rec', OF R q] f q True Inr
      show ?thesis by (simp add: depsStep_def)
    qed
  qed
  then show ?thesis by (simp add: transpileBody_def s_def tr1_def hx_def)
qed

lemma transpileModule_Suc:
  "transpileModule n e a src ign st tracing = Some res \<Longrightarrow>
   transpileModule (Suc n) e a src ign st tracing = Some res"
proof (induction n arbitrary: a src ign st tracing res)
  case 0
  then show ?case by simp
next
  case (Suc n)
  show ?case
  proof (cases "specifier (heap st a) \<in> tracing")
    case True
    then show ?thesis using Suc.prems by simp
  next
    case False
    then have "transpileBody (\<lambda>b s. transpileModule n e b s False) e a src ign st tracing = Some res"
      using Suc.prems by simp
    from transpileBody_mono[where rec'="\<lambda>b s. transpileModule (Suc n) e b s False", OF _ this] Suc.IH
    have "transpileBody (\<lambda>b s. transpileModule (Suc n) e b s False) e a src ign st tracing = Some res"
      by blast
    then show ?thesis using False by simp
  qed
qed

lemma transpileModule_more_fuel:
  "transpileModule n e a src ign st tracing = Some res \<Longrightarrow> n \<le> m \<Longrightarrow>
   transpileModule m e a src ign st tracing = Some res"
  by (induction m) (auto simp: le_Suc_eq dest: transpileModule_Suc simp del: transpileModule.simps)

lemma compile_more_fuel:
  "compile n e sp opts st = Some res \<Longrightarrow> n \<le> m \<Longrightarrow> compile m e sp opts st = Some res"
  by (auto simp: compile_def compileSrc_def transpileInit_def compiled_def
      split: option.splits if_splits sum.splits dest: transpileModule_more_fuel)

lemma cycle_compile_any_fuel:
  "fuel4 \<le> n \<Longrightarrow> compile n envCycle ''/a.ts'' opts0 emptyState = Some (cycleBuilt, Inr 0)"
  by (rule compile_more_fuel[OF cycle_first_compile])




section \<open>Compiling an unchanged specifier again\<close>










text \<open>
  The other way \<open>#initModule\<close> answers an unchanged specifier: when the module is not
  served from the registry, the sidecar is merged, the source is loaded, and the fresh
  hash equals the stored one, there is no source to transpile.
\<close>

lemma initModule_reload_same_hash:
  assumes r: "resolveSpecifier e sp opts = (sp', False, data)"
    and nf: "\<not> o_forceRefresh opts" and nv: "\<not> o_virtual opts"
    and nr: "case map_of (modules st) sp' of None \<Rightarrow> True | Some a \<Rightarrow> \<not> reusable opts (heap st a)"
    and mf: "metaFiles st (trimBuiltinModuleExts e (toLocalPath e sp') @ ''.js'') = Some (Parsed meta)"
    and mc: "metaConsistent sp' meta" and mh: "m_sourceHash meta = JString h"
    and ld: "(case o_source opts of Some s \<Rightarrow> Inr s | None \<Rightarrow> resolveModuleSource e sp' data) = Inr src"
    and hs: "computeSourceHash e sp' src = Inr h"
  shows "snd (snd (initModule e sp opts st)) = None \<and>
         sourceHash (heap (fst (initModule e sp opts st)) (fst (snd (initModule e sp opts st)))) = h \<and>
         transformLog (fst (initModule e sp opts st)) = transformLog st"
proof -
  define isNew where "isNew = (map_of (modules st) sp' = None)"
  define P where "P = restoreMeta e sp' (nextAddr st) (publish e sp' opts st)"
  have i: "initModule e sp opts st = afterPublish e sp' data opts isNew (nextAddr st) P"
    using r nr nf by (auto simp: initModule_def initResolved_def initFresh_def isNew_def P_def
        split: option.splits)
  have h: "sourceHash (heap P (nextAddr st)) = h"
    using mf mc mh by (simp add: P_def restoreMeta_def publish_def newModule_def assignMeta_def)
  have t: "transformLog P = transformLog st"
    by (simp add: P_def restoreMeta_tlog publish_def)
  have o: "snd (obtainSource e sp' data opts s) = Inr src"
    "heap (fst (obtainSource e sp' data opts s)) = heap s" for s
    using ld by (auto simp: obtainSource_def split: option.splits)
  have l: "snd (snd (loadStep e sp' data opts isNew (nextAddr st) s)) = None \<and>
           sourceHash (heap (fst (loadStep e sp' data opts isNew (nextAddr st) s)) (nextAddr st)) = h \<and>
           fst (snd (loadStep e sp' data opts isNew (nextAddr st) s)) = nextAddr st"
    if "sourceHash (heap s (nextAddr st)) = h" for s
    using that by (simp add: loadStep_def compareHash_def o hs deferReady_def)
  have "snd (snd (afterPublish e sp' data opts isNew (nextAddr st) P)) = None \<and>
        sourceHash (heap (fst (afterPublish e sp' data opts isNew (nextAddr st) P))
          (fst (snd (afterPublish e sp' data opts isNew (nextAddr st) P)))) = h"
    using nv h l by (simp add: afterPublish_def deferReady_def)
  then show ?thesis by (simp add: i afterPublish_tlog t)
qed

end
